theory Spec2Isabelle
  imports Main
begin

section \<open>Values, exceptions and effects of \<^verbatim>\<open>src/main.py\<close>\<close>

text \<open>
  The exceptions that can reach the code of \<^verbatim>\<open>main.py\<close>. \<open>WebSocketDisconnect\<close>,
  \<open>KeyError\<close> and \<open>Exception msg\<close> are subclasses of Python's \<^verbatim>\<open>Exception\<close>;
  \<open>CancelledError\<close> derives from \<^verbatim>\<open>BaseException\<close> only, so \<^verbatim>\<open>except Exception\<close>
  does not catch it.
\<close>

datatype exn = WebSocketDisconnect | KeyError | Exception string | CancelledError

fun is_Exception :: "exn \<Rightarrow> bool" where
  "is_Exception CancelledError = False"
| "is_Exception _ = True"

text \<open>
  The payloads the engines return: structured data (a dictionary) for projects and
  portfolio, a list of alert records for alerts. \<open>truthy\<close> is Python's truth value of
  such a value, which \<^verbatim>\<open>if alerts:\<close> tests.
\<close>

datatype pyval = PyNone | PyDict "(string \<times> string) list" | PyList "string list"

fun truthy :: "pyval \<Rightarrow> bool" where
  "truthy PyNone = False"
| "truthy (PyDict kvs) = (kvs \<noteq> [])"
| "truthy (PyList xs) = (xs \<noteq> [])"

text \<open>
  A connection object: \<open>obj_id\<close> is what \<^verbatim>\<open>id(websocket)\<close> returns, \<open>client\<close> names the
  peer at the other end of the transport.
\<close>

record websocket =
  obj_id :: nat
  client :: string

text \<open>An engine object held in one of the four module globals; its internals are external.\<close>

datatype obj = Obj string

text \<open>The texts given to \<^verbatim>\<open>logging.info\<close> and \<^verbatim>\<open>logging.error\<close>.\<close>

datatype message =
    MsgStarting
  | MsgInitialized
  | MsgInitFailed exn
  | MsgShuttingDown
  | MsgShutdownComplete
  | MsgDisconnected string

text \<open>
  The observable effects. An event is appended to the trace when the call it stands for
  has returned; a call that raises leaves no event, its exception is the result.
\<close>

datatype event =
    LogInfo message
  | LogError message
  | Construct string
  | CollectorStart
  | LoadModels
  | CollectorStop
  | Accept websocket
  | GetRealtimeAnalytics
  | GetRealtimePortfolio
  | GetActiveAlerts
  | SendJson websocket pyval
  | Sleep nat

text \<open>
  The state of the process: the four module globals (lines 33--36), the dictionary
  \<^verbatim>\<open>active_connections\<close> of \<^verbatim>\<open>create_app\<close> (line 108), the trace of effects and a
  clock in milliseconds, advanced by the calls awaited inside the endpoints' loops.
\<close>

record app_state =
  project_analyzer :: "obj option"
  portfolio_optimizer :: "obj option"
  risk_analyzer :: "obj option"
  data_collector :: "obj option"
  active_connections :: "string \<rightharpoonup> websocket"
  trace :: "event list"
  clock :: nat

definition initial_state :: app_state where
  "initial_state =
     \<lparr>project_analyzer = None, portfolio_optimizer = None, risk_analyzer = None,
      data_collector = None, active_connections = Map.empty, trace = [], clock = 0\<rparr>"

definition emit :: "event \<Rightarrow> app_state \<Rightarrow> app_state" where
  "emit ev s = s\<lparr>trace := trace s @ [ev]\<rparr>"

definition tick :: "nat \<Rightarrow> app_state \<Rightarrow> app_state" where
  "tick ms s = s\<lparr>clock := clock s + ms\<rparr>"

text \<open>The frames that reached a client, in order: the \<open>SendJson\<close> events of a trace.\<close>

fun frames :: "event list \<Rightarrow> (websocket \<times> pyval) list" where
  "frames [] = []"
| "frames (SendJson ws v # evs) = (ws, v) # frames evs"
| "frames (_ # evs) = frames evs"

text \<open>Sequencing of calls that may raise: the first exception ends the sequence.\<close>

definition and_then ::
  "(exn + 'a) \<times> app_state \<Rightarrow> ('a \<Rightarrow> app_state \<Rightarrow> (exn + 'b) \<times> app_state)
     \<Rightarrow> (exn + 'b) \<times> app_state" where
  "and_then r f = (case r of (Inl e, s) \<Rightarrow> (Inl e, s) | (Inr a, s) \<Rightarrow> f a s)"

subsection \<open>Dictionary and string operations\<close>

text \<open>
  \<^verbatim>\<open>d.pop(k)\<close> and \<^verbatim>\<open>d.pop(k, default)\<close>: without a default a missing key raises
  \<^verbatim>\<open>KeyError\<close>, with one it does not. The callers discard the value popped, so the model
  returns the dictionary only.
\<close>

definition dict_pop :: "'k \<Rightarrow> pyval option \<Rightarrow> ('k \<rightharpoonup> 'v) \<Rightarrow> exn + ('k \<rightharpoonup> 'v)" where
  "dict_pop k dflt d =
     (case d k of
        Some v \<Rightarrow> Inr (d(k := None))
      | None \<Rightarrow> (case dflt of None \<Rightarrow> Inl KeyError | Some _ \<Rightarrow> Inr d))"

text \<open>The decimal text of a number, as an f-string renders \<^verbatim>\<open>id(websocket)\<close>.\<close>

definition digit :: "nat \<Rightarrow> char" where
  "digit n = ''0123456789'' ! (n mod 10)"

fun str :: "nat \<Rightarrow> string" where
  "str n = (if n < 10 then [digit n] else str (n div 10) @ [digit n])"

declare str.simps [simp del]

section \<open>The WebSocket endpoints (lines 110--169)\<close>

text \<open>
  What the environment answers during one pass of an endpoint's \<^verbatim>\<open>while True\<close> body:
  the result of the engine's fetch and the time it took, the result of
  \<^verbatim>\<open>websocket.send_json\<close> and the time it took, and whether \<^verbatim>\<open>asyncio.sleep\<close>
  returned or raised (a cancelled task raises \<open>CancelledError\<close> there).
\<close>

record cycle_io =
  fetch_result :: "exn + pyval"
  fetch_ms :: nat
  send_result :: "exn + unit"
  send_ms :: nat
  sleep_result :: "exn + unit"

definition await_fetch :: "event \<Rightarrow> cycle_io \<Rightarrow> app_state \<Rightarrow> (exn + pyval) \<times> app_state" where
  "await_fetch ev io s =
     (case fetch_result io of
        Inl e \<Rightarrow> (Inl e, tick (fetch_ms io) s)
      | Inr v \<Rightarrow> (Inr v, emit ev (tick (fetch_ms io) s)))"

definition send_json :: "websocket \<Rightarrow> pyval \<Rightarrow> cycle_io \<Rightarrow> app_state \<Rightarrow> (exn + unit) \<times> app_state" where
  "send_json ws v io s =
     (case send_result io of
        Inl e \<Rightarrow> (Inl e, tick (send_ms io) s)
      | Inr _ \<Rightarrow> (Inr (), emit (SendJson ws v) (tick (send_ms io) s)))"

text \<open>\<^verbatim>\<open>asyncio.sleep(n)\<close>, \<open>n\<close> in seconds: when it returns, \<open>n\<close> seconds have passed.\<close>

definition asyncio_sleep :: "nat \<Rightarrow> cycle_io \<Rightarrow> app_state \<Rightarrow> (exn + unit) \<times> app_state" where
  "asyncio_sleep n io s =
     (case sleep_result io of
        Inl e \<Rightarrow> (Inl e, s)
      | Inr _ \<Rightarrow> (Inr (), emit (Sleep n) (tick (1000 * n) s)))"

text \<open>Lines 119--124, the body of the loop of \<^verbatim>\<open>websocket_projects\<close>.\<close>

definition projects_cycle :: "websocket \<Rightarrow> cycle_io \<Rightarrow> app_state \<Rightarrow> (exn + unit) \<times> app_state" where
  "projects_cycle ws io s =
     and_then
       (if project_analyzer s \<noteq> None
        then and_then (await_fetch GetRealtimeAnalytics io s)
               (\<lambda>project_data. send_json ws project_data io)
        else (Inr (), s))
       (\<lambda>_. asyncio_sleep 2 io)"

text \<open>Lines 139--144, the body of the loop of \<^verbatim>\<open>websocket_portfolio\<close>.\<close>

definition portfolio_cycle :: "websocket \<Rightarrow> cycle_io \<Rightarrow> app_state \<Rightarrow> (exn + unit) \<times> app_state" where
  "portfolio_cycle ws io s =
     and_then
       (if portfolio_optimizer s \<noteq> None
        then and_then (await_fetch GetRealtimePortfolio io s)
               (\<lambda>portfolio_data. send_json ws portfolio_data io)
        else (Inr (), s))
       (\<lambda>_. asyncio_sleep 5 io)"

text \<open>Lines 159--165, the body of the loop of \<^verbatim>\<open>websocket_alerts\<close>.\<close>

definition alerts_cycle :: "websocket \<Rightarrow> cycle_io \<Rightarrow> app_state \<Rightarrow> (exn + unit) \<times> app_state" where
  "alerts_cycle ws io s =
     and_then
       (if risk_analyzer s \<noteq> None
        then and_then (await_fetch GetActiveAlerts io s)
               (\<lambda>alerts s1. if truthy alerts then send_json ws alerts io s1 else (Inr (), s1))
        else (Inr (), s))
       (\<lambda>_. asyncio_sleep 10 io)"

text \<open>
  How a call of an endpoint stands when the script of environment answers is used up:
  it has returned, it has raised, or it is still inside its \<^verbatim>\<open>while True\<close> loop.
\<close>

datatype outcome = Returned | Raised exn | Pending

text \<open>
  \<^verbatim>\<open>while True: body\<close>. The loop has no exit of its own: it ends only when the body
  raises. The list of answers is the fuel; with none left the loop is still running.
\<close>

fun serve_forever ::
  "(cycle_io \<Rightarrow> app_state \<Rightarrow> (exn + unit) \<times> app_state) \<Rightarrow> cycle_io list \<Rightarrow> app_state
     \<Rightarrow> outcome \<times> app_state" where
  "serve_forever body [] s = (Pending, s)"
| "serve_forever body (io # ios) s =
     (case body io s of
        (Inl e, s') \<Rightarrow> (Raised e, s')
      | (Inr _, s') \<Rightarrow> serve_forever body ios s')"

text \<open>
  Lines 127--128 (and 147--148, 168--169), the body of \<^verbatim>\<open>except WebSocketDisconnect\<close>:
  \<^verbatim>\<open>active_connections.pop(connection_id, None)\<close>, then the log entry. An exception raised
  inside the handler would leave the endpoint.
\<close>

definition on_disconnect :: "string \<Rightarrow> app_state \<Rightarrow> outcome \<times> app_state" where
  "on_disconnect connection_id s =
     (case dict_pop connection_id (Some PyNone) (active_connections s) of
        Inl e \<Rightarrow> (Raised e, s)
      | Inr d \<Rightarrow>
          (Returned,
           emit (LogInfo (MsgDisconnected connection_id)) (s\<lparr>active_connections := d\<rparr>)))"

text \<open>
  The frame the three endpoints share (lines 113--128, 133--148, 153--169):
  \<^verbatim>\<open>await websocket.accept()\<close>, the identifier built from a prefix and
  \<^verbatim>\<open>id(websocket)\<close>, the assignment into \<^verbatim>\<open>active_connections\<close>, and the loop inside
  \<^verbatim>\<open>try ... except WebSocketDisconnect\<close>, whose handler is \<open>on_disconnect\<close>.
  Any other exception leaves the function as it is.
\<close>

definition websocket_endpoint ::
  "string \<Rightarrow> (websocket \<Rightarrow> cycle_io \<Rightarrow> app_state \<Rightarrow> (exn + unit) \<times> app_state)
     \<Rightarrow> websocket \<Rightarrow> exn + unit \<Rightarrow> cycle_io list \<Rightarrow> app_state \<Rightarrow> outcome \<times> app_state" where
  "websocket_endpoint prefix body ws accept_result ios s =
     (case accept_result of
        Inl e \<Rightarrow> (Raised e, s)
      | Inr _ \<Rightarrow>
          (let connection_id = prefix @ str (obj_id ws);
               s1 = (emit (Accept ws) s)
                      \<lparr>active_connections := (active_connections s)(connection_id \<mapsto> ws)\<rparr>
           in case serve_forever (body ws) ios s1 of
                (Raised WebSocketDisconnect, s2) \<Rightarrow> on_disconnect connection_id s2
              | r \<Rightarrow> r))"

definition websocket_projects ::
  "websocket \<Rightarrow> exn + unit \<Rightarrow> cycle_io list \<Rightarrow> app_state \<Rightarrow> outcome \<times> app_state" where
  "websocket_projects = websocket_endpoint ''projects_'' projects_cycle"

definition websocket_portfolio ::
  "websocket \<Rightarrow> exn + unit \<Rightarrow> cycle_io list \<Rightarrow> app_state \<Rightarrow> outcome \<times> app_state" where
  "websocket_portfolio = websocket_endpoint ''portfolio_'' portfolio_cycle"

definition websocket_alerts ::
  "websocket \<Rightarrow> exn + unit \<Rightarrow> cycle_io list \<Rightarrow> app_state \<Rightarrow> outcome \<times> app_state" where
  "websocket_alerts = websocket_endpoint ''alerts_'' alerts_cycle"

text \<open>The three topics, to state a property of all three endpoints at once.\<close>

datatype topic = Projects | Portfolio | Alerts

fun cycle_of :: "topic \<Rightarrow> websocket \<Rightarrow> cycle_io \<Rightarrow> app_state \<Rightarrow> (exn + unit) \<times> app_state" where
  "cycle_of Projects = projects_cycle"
| "cycle_of Portfolio = portfolio_cycle"
| "cycle_of Alerts = alerts_cycle"

fun engine_of :: "topic \<Rightarrow> app_state \<Rightarrow> obj option" where
  "engine_of Projects = project_analyzer"
| "engine_of Portfolio = portfolio_optimizer"
| "engine_of Alerts = risk_analyzer"

fun prefix_of :: "topic \<Rightarrow> string" where
  "prefix_of Projects = ''projects_''"
| "prefix_of Portfolio = ''portfolio_''"
| "prefix_of Alerts = ''alerts_''"

text \<open>The argument of each endpoint's \<^verbatim>\<open>asyncio.sleep\<close> (lines 124, 144, 165), in seconds.\<close>

fun interval_of :: "topic \<Rightarrow> nat" where
  "interval_of Projects = 2"
| "interval_of Portfolio = 5"
| "interval_of Alerts = 10"

text \<open>The engine method each endpoint awaits (lines 121, 141, 161).\<close>

fun fetch_event :: "topic \<Rightarrow> event" where
  "fetch_event Projects = GetRealtimeAnalytics"
| "fetch_event Portfolio = GetRealtimePortfolio"
| "fetch_event Alerts = GetActiveAlerts"

section \<open>The lifespan manager (lines 39--77)\<close>

text \<open>
  What the environment answers during startup: the result of each constructor, of
  \<^verbatim>\<open>data_collector.start()\<close> and of \<^verbatim>\<open>project_analyzer.load_models()\<close>.
\<close>

record startup_io =
  config_result :: "exn + unit"
  collector_result :: "exn + unit"
  analyzer_result :: "exn + unit"
  optimizer_result :: "exn + unit"
  risk_result :: "exn + unit"
  start_result :: "exn + unit"
  load_result :: "exn + unit"

text \<open>A constructor call: it returns the new object or raises.\<close>

definition construct :: "string \<Rightarrow> exn + unit \<Rightarrow> app_state \<Rightarrow> (exn + obj) \<times> app_state" where
  "construct cls r s =
     (case r of Inl e \<Rightarrow> (Inl e, s) | Inr _ \<Rightarrow> (Inr (Obj cls), emit (Construct cls) s))"

text \<open>An awaited call of an engine method that returns nothing.\<close>

definition await_call :: "event \<Rightarrow> exn + unit \<Rightarrow> app_state \<Rightarrow> (exn + unit) \<times> app_state" where
  "await_call ev r s = (case r of Inl e \<Rightarrow> (Inl e, s) | Inr _ \<Rightarrow> (Inr (), emit ev s))"

text \<open>Lines 48--63, the body of the \<^verbatim>\<open>try\<close>; each global is assigned as its object is built.\<close>

definition startup_body :: "startup_io \<Rightarrow> app_state \<Rightarrow> (exn + unit) \<times> app_state" where
  "startup_body io s =
     and_then (construct ''ProjectConfig'' (config_result io) s) (\<lambda>config s.
     and_then (construct ''ProjectDataCollector'' (collector_result io) s) (\<lambda>dc s.
     and_then (construct ''ProjectAnalyzer'' (analyzer_result io) (s\<lparr>data_collector := Some dc\<rparr>)) (\<lambda>pa s.
     and_then (construct ''PortfolioOptimizer'' (optimizer_result io) (s\<lparr>project_analyzer := Some pa\<rparr>)) (\<lambda>po s.
     and_then (construct ''RiskAnalyzer'' (risk_result io) (s\<lparr>portfolio_optimizer := Some po\<rparr>)) (\<lambda>ra s.
     and_then (await_call CollectorStart (start_result io) (s\<lparr>risk_analyzer := Some ra\<rparr>)) (\<lambda>_ s.
     and_then (await_call LoadModels (load_result io) s) (\<lambda>_ s.
       (Inr (), emit (LogInfo MsgInitialized) s))))))))"

text \<open>
  Lines 45--67, the part of \<^verbatim>\<open>lifespan\<close> before \<^verbatim>\<open>yield\<close>: the handler
  \<^verbatim>\<open>except Exception as e\<close> logs the error and raises it again.
\<close>

definition lifespan_startup :: "startup_io \<Rightarrow> app_state \<Rightarrow> (exn + unit) \<times> app_state" where
  "lifespan_startup io s =
     (case startup_body io (emit (LogInfo MsgStarting) s) of
        (Inl e, s') \<Rightarrow>
          (if is_Exception e then (Inl e, emit (LogError (MsgInitFailed e)) s') else (Inl e, s'))
      | (Inr u, s') \<Rightarrow> (Inr u, s'))"

text \<open>
  Lines 71--77, the part of \<^verbatim>\<open>lifespan\<close> after \<^verbatim>\<open>yield\<close>; \<open>stop_result\<close> is what
  \<^verbatim>\<open>data_collector.stop()\<close> answers.
\<close>

definition lifespan_shutdown :: "exn + unit \<Rightarrow> app_state \<Rightarrow> (exn + unit) \<times> app_state" where
  "lifespan_shutdown stop_result s =
     and_then
       (if data_collector s \<noteq> None
        then await_call CollectorStop stop_result (emit (LogInfo MsgShuttingDown) s)
        else (Inr (), emit (LogInfo MsgShuttingDown) s))
       (\<lambda>_ s. (Inr (), emit (LogInfo MsgShutdownComplete) s))"

subsection \<open>The startup sequence as the specification words it\<close>

text \<open>
  The specification's wording of startup: a list of steps performed in strict sequence,
  the first failure aborting the rest and being the result. \<open>spec_run_steps\<close> returns
  that result and the steps that completed.
\<close>

fun spec_run_steps :: "(event \<times> (exn + unit)) list \<Rightarrow> (exn + unit) \<times> event list" where
  "spec_run_steps [] = (Inr (), [])"
| "spec_run_steps ((ev, Inl e) # steps) = (Inl e, [])"
| "spec_run_steps ((ev, Inr u) # steps) =
     (case spec_run_steps steps of (r, evs) \<Rightarrow> (r, ev # evs))"

definition spec_startup_steps :: "startup_io \<Rightarrow> (event \<times> (exn + unit)) list" where
  "spec_startup_steps io =
     [(Construct ''ProjectConfig'', config_result io),
      (Construct ''ProjectDataCollector'', collector_result io),
      (Construct ''ProjectAnalyzer'', analyzer_result io),
      (Construct ''PortfolioOptimizer'', optimizer_result io),
      (Construct ''RiskAnalyzer'', risk_result io),
      (CollectorStart, start_result io),
      (LoadModels, load_result io)]"

text \<open>What startup logs last (lines 63 and 66), given how the sequence ended.\<close>

fun closing_log :: "exn + unit \<Rightarrow> event list" where
  "closing_log (Inr u) = [LogInfo MsgInitialized]"
| "closing_log (Inl e) = (if is_Exception e then [LogError (MsgInitFailed e)] else [])"

subsection \<open>Concrete inputs\<close>

definition all_ok :: startup_io where
  "all_ok =
     \<lparr>config_result = Inr (), collector_result = Inr (), analyzer_result = Inr (),
      optimizer_result = Inr (), risk_result = Inr (), start_result = Inr (),
      load_result = Inr ()\<rparr>"

text \<open>The state in which the application serves: after a startup in which every step succeeded.\<close>

definition ready_state :: app_state where
  "ready_state = snd (lifespan_startup all_ok initial_state)"

definition ok_cycle :: "pyval \<Rightarrow> cycle_io" where
  "ok_cycle v =
     \<lparr>fetch_result = Inr v, fetch_ms = 0, send_result = Inr (), send_ms = 0,
      sleep_result = Inr ()\<rparr>"

definition fetch_fails :: "exn \<Rightarrow> cycle_io" where
  "fetch_fails e =
     \<lparr>fetch_result = Inl e, fetch_ms = 0, send_result = Inr (), send_ms = 0,
      sleep_result = Inr ()\<rparr>"

definition send_disconnects :: "pyval \<Rightarrow> cycle_io" where
  "send_disconnects v =
     \<lparr>fetch_result = Inr v, fetch_ms = 0, send_result = Inl WebSocketDisconnect, send_ms = 0,
      sleep_result = Inr ()\<rparr>"

definition slow_fetch :: "pyval \<Rightarrow> cycle_io" where
  "slow_fetch v =
     \<lparr>fetch_result = Inr v, fetch_ms = 1000, send_result = Inr (), send_ms = 0,
      sleep_result = Inr ()\<rparr>"

definition load_fails :: startup_io where
  "load_fails = all_ok\<lparr>load_result := Inl (Exception ''no model'')\<rparr>"

definition sample :: pyval where
  "sample = PyDict [(''k'', ''v'')]"

definition conn :: "nat \<Rightarrow> string \<Rightarrow> websocket" where
  "conn n c = \<lparr>obj_id = n, client = c\<rparr>"

section \<open>Evaluation lemmas\<close>

lemmas cycle_defs =
  projects_cycle_def portfolio_cycle_def alerts_cycle_def and_then_def
  await_fetch_def send_json_def asyncio_sleep_def emit_def tick_def

lemmas startup_defs =
  lifespan_startup_def startup_body_def and_then_def construct_def await_call_def emit_def

lemmas endpoint_defs =
  websocket_projects_def websocket_portfolio_def websocket_alerts_def websocket_endpoint_def
  on_disconnect_def Let_def

lemmas input_defs =
  ok_cycle_def fetch_fails_def send_disconnects_def slow_fetch_def load_fails_def all_ok_def
  sample_def conn_def

lemma ready_state_eq:
  "ready_state =
     \<lparr>project_analyzer = Some (Obj ''ProjectAnalyzer''),
      portfolio_optimizer = Some (Obj ''PortfolioOptimizer''),
      risk_analyzer = Some (Obj ''RiskAnalyzer''),
      data_collector = Some (Obj ''ProjectDataCollector''),
      active_connections = Map.empty,
      trace = [LogInfo MsgStarting, Construct ''ProjectConfig'',
               Construct ''ProjectDataCollector'', Construct ''ProjectAnalyzer'',
               Construct ''PortfolioOptimizer'', Construct ''RiskAnalyzer'',
               CollectorStart, LoadModels, LogInfo MsgInitialized],
      clock = 0\<rparr>"
  by (simp add: ready_state_def startup_defs all_ok_def initial_state_def)

lemma str_7: "str 7 = ''7''"
  by (simp add: str.simps digit_def)

lemma dict_pop_default: "dict_pop k (Some v) d = Inr (d(k := None))"
  by (auto simp: dict_pop_def split: option.splits)

lemma frames_append: "frames (xs @ ys) = frames xs @ frames ys"
  by (induction xs rule: frames.induct) simp_all

section \<open>The loop and the endpoint frame\<close>

text \<open>Running a script in two parts: the second part runs only if the first left the loop running.\<close>

lemma serve_forever_append:
  "serve_forever body (pre @ ios) s =
     (case serve_forever body pre s of
        (Pending, s') \<Rightarrow> serve_forever body ios s'
      | r \<Rightarrow> r)"
  by (induction pre arbitrary: s) (auto split: prod.splits sum.splits)

text \<open>The loop has no normal exit.\<close>

lemma serve_forever_not_returned: "serve_forever body ios s \<noteq> (Returned, s')"
  by (induction ios arbitrary: s) (auto split: prod.splits sum.splits)

lemma cycle_fetch_error:
  "engine_of t s \<noteq> None \<Longrightarrow> fetch_result io = Inl e \<Longrightarrow>
     cycle_of t ws io s = (Inl e, tick (fetch_ms io) s)"
  by (cases t) (auto simp: cycle_defs)

lemma cycle_trace_extends:
  "\<exists>evs. trace (snd (cycle_of t ws io s)) = trace s @ evs"
  by (cases t) (auto simp: cycle_defs split: sum.splits)

lemma serve_forever_trace_extends:
  "\<exists>evs. trace (snd (serve_forever (cycle_of t ws) ios s)) = trace s @ evs"
proof (induction ios arbitrary: s)
  case Nil
  show ?case by simp
next
  case (Cons io ios)
  obtain r s' where c: "cycle_of t ws io s = (r, s')"
    by (cases "cycle_of t ws io s")
  obtain e1 where e1: "trace s' = trace s @ e1"
    using cycle_trace_extends [of t ws io s] c by auto
  show ?case
  proof (cases r)
    case (Inl e)
    then show ?thesis using c e1 by simp
  next
    case (Inr u)
    obtain e2 where "trace (snd (serve_forever (cycle_of t ws) ios s')) = trace s' @ e2"
      using Cons.IH [of s'] by auto
    then show ?thesis using c e1 Inr by simp
  qed
qed

text \<open>
  The path the endpoints do clean up on: when an endpoint returns, which it does only
  after catching \<open>WebSocketDisconnect\<close>, its identifier is no longer in the registry.
\<close>

lemma endpoint_returned_deregisters:
  "websocket_endpoint p body ws a ios s = (Returned, s') \<Longrightarrow>
     active_connections s' (p @ str (obj_id ws)) = None"
  by (auto simp: websocket_endpoint_def on_disconnect_def Let_def dict_pop_default emit_def
        serve_forever_not_returned
      split: sum.splits prod.splits outcome.splits exn.splits)

text \<open>The cycles and the loop never touch the registry.\<close>

lemma cycle_keeps_registry:
  "active_connections (snd (cycle_of t ws io s)) = active_connections s"
  by (cases t) (auto simp: cycle_defs split: sum.splits)

lemma serve_forever_keeps_registry:
  "active_connections (snd (serve_forever (cycle_of t ws) ios s)) = active_connections s"
proof (induction ios arbitrary: s)
  case Nil
  show ?case by simp
next
  case (Cons io ios)
  obtain r s' where c: "cycle_of t ws io s = (r, s')"
    by (cases "cycle_of t ws io s")
  have k: "active_connections s' = active_connections s"
    using cycle_keeps_registry [of t ws io s] c by simp
  show ?case
  proof (cases r)
    case (Inl e)
    then show ?thesis using c k by simp
  next
    case (Inr u)
    then show ?thesis using c k Cons.IH [of s'] by simp
  qed
qed

text \<open>
  When an endpoint returns, the registry is the one it was called with, without the
  endpoint's own identifier.
\<close>

lemma endpoint_returned_registry:
  assumes "websocket_endpoint (prefix_of t) (cycle_of t) ws a ios s = (Returned, s')"
  shows "active_connections s' = (active_connections s)(prefix_of t @ str (obj_id ws) := None)"
proof -
  let ?cid = "prefix_of t @ str (obj_id ws)"
  let ?s1 = "(emit (Accept ws) s)\<lparr>active_connections := (active_connections s)(?cid \<mapsto> ws)\<rparr>"
  obtain o2 s2 where l: "serve_forever (cycle_of t ws) ios ?s1 = (o2, s2)"
    by (cases "serve_forever (cycle_of t ws) ios ?s1")
  have k: "active_connections s2 = (active_connections s)(?cid \<mapsto> ws)"
    using serve_forever_keeps_registry [of t ws ios ?s1] l by simp
  have "s' = snd (on_disconnect ?cid s2)"
    using assms l serve_forever_not_returned [of "cycle_of t ws" ios ?s1]
    unfolding websocket_endpoint_def Let_def
    by (auto split: sum.splits outcome.splits exn.splits)
  then show ?thesis
    using k by (simp add: on_disconnect_def dict_pop_default emit_def)
qed

text \<open>The trace of an endpoint starts with the trace of its first cycle.\<close>

lemma endpoint_first_cycle:
  "\<exists>evs. trace (snd (websocket_endpoint (prefix_of t) (cycle_of t) ws (Inr ()) (io # rest) s))
     = trace (snd (cycle_of t ws io
         ((emit (Accept ws) s)
            \<lparr>active_connections := (active_connections s)(prefix_of t @ str (obj_id ws) \<mapsto> ws)\<rparr>)))
       @ evs"
proof -
  let ?s1 = "(emit (Accept ws) s)
      \<lparr>active_connections := (active_connections s)(prefix_of t @ str (obj_id ws) \<mapsto> ws)\<rparr>"
  obtain r s2 where c: "cycle_of t ws io ?s1 = (r, s2)"
    by (cases "cycle_of t ws io ?s1")
  obtain o3 s3 where l: "serve_forever (cycle_of t ws) (io # rest) ?s1 = (o3, s3)"
    by (cases "serve_forever (cycle_of t ws) (io # rest) ?s1")
  have "\<exists>evs. trace s3 = trace s2 @ evs"
  proof (cases r)
    case (Inl e)
    then show ?thesis using c l by auto
  next
    case (Inr u)
    then have "s3 = snd (serve_forever (cycle_of t ws) rest s2)"
      using c l by auto
    then show ?thesis
      using serve_forever_trace_extends [of t ws rest s2] by simp
  qed
  then obtain e2 where e2: "trace s3 = trace s2 @ e2"
    by blast
  show ?thesis
    using l c e2 unfolding websocket_endpoint_def on_disconnect_def Let_def
    by (auto simp: dict_pop_default emit_def split: outcome.splits exn.splits)
qed

lemma endpoint_first_frame:
  assumes "engine_of t s \<noteq> None" and "fetch_result io = Inr v" and "send_result io = Inr ()"
    and "t = Alerts \<longrightarrow> truthy v"
  shows "\<exists>evs. trace (snd (websocket_endpoint (prefix_of t) (cycle_of t) ws (Inr ()) (io # rest) s))
           = trace s @ [Accept ws, fetch_event t, SendJson ws v] @ evs"
proof -
  let ?s1 = "(emit (Accept ws) s)
      \<lparr>active_connections := (active_connections s)(prefix_of t @ str (obj_id ws) \<mapsto> ws)\<rparr>"
  have "\<exists>evs. trace (snd (cycle_of t ws io ?s1))
          = trace s @ [Accept ws, fetch_event t, SendJson ws v] @ evs"
    using assms by (cases t) (auto simp: cycle_defs split: sum.splits)
  then show ?thesis
    using endpoint_first_cycle [of t ws io rest s] by auto
qed

lemma alerts_first_cycle_empty:
  assumes "risk_analyzer s \<noteq> None" and "fetch_result io = Inr v" and "\<not> truthy v"
    and "sleep_result io = Inr ()"
  shows "\<exists>evs. trace (snd (websocket_endpoint ''alerts_'' alerts_cycle ws (Inr ()) (io # rest) s))
           = trace s @ [Accept ws, GetActiveAlerts, Sleep 10] @ evs"
proof -
  let ?s1 = "(emit (Accept ws) s)
      \<lparr>active_connections := (active_connections s)(''alerts_'' @ str (obj_id ws) \<mapsto> ws)\<rparr>"
  have "trace (snd (alerts_cycle ws io ?s1)) = trace s @ [Accept ws, GetActiveAlerts, Sleep 10]"
    using assms by (simp add: cycle_defs)
  then show ?thesis
    using endpoint_first_cycle [of Alerts ws io rest s] by auto
qed

section \<open>The session registry\<close>

text \<open>
  C9. Removing a session identifier from the registry is what the handler of
  \<^verbatim>\<open>except WebSocketDisconnect\<close> does. In every state, with the identifier present or
  absent, it raises nothing: it returns with the identifier absent and every other entry
  unchanged. With the identifier absent it leaves the registry as it is, and run a
  second time it again returns without error and changes nothing. An endpoint that
  returns has removed exactly its own identifier from the registry it started with.
\<close>

theorem removal_idempotent:
  "on_disconnect cid s =
      (Returned,
       s\<lparr>active_connections := (active_connections s)(cid := None),
         trace := trace s @ [LogInfo (MsgDisconnected cid)]\<rparr>)
   \<and> (\<forall>k. k \<noteq> cid \<longrightarrow> active_connections (snd (on_disconnect cid s)) k = active_connections s k)
   \<and> (active_connections s cid = None \<longrightarrow>
        active_connections (snd (on_disconnect cid s)) = active_connections s)
   \<and> fst (on_disconnect cid (snd (on_disconnect cid s))) = Returned
   \<and> active_connections (snd (on_disconnect cid (snd (on_disconnect cid s))))
       = active_connections (snd (on_disconnect cid s))
   \<and> (websocket_endpoint (prefix_of t) (cycle_of t) ws a ios s0 = (Returned, s') \<longrightarrow>
        active_connections s' = (active_connections s0)(prefix_of t @ str (obj_id ws) := None))"
  using endpoint_returned_registry [of t ws a ios s0 s']
  by (auto simp: on_disconnect_def dict_pop_default emit_def)

text \<open>
  An instance: with an alerts session registered, a projects session is accepted and its
  first send meets a closed transport. The endpoint returns, having removed
  \<open>projects_7\<close> and kept \<open>alerts_9\<close>; removing \<open>projects_7\<close> again, now absent, returns
  without error and leaves the registry as it is.
\<close>

theorem removal_idempotent_witness:
  "websocket_endpoint (prefix_of Projects) (cycle_of Projects) (conn 7 ''a'') (Inr ())
       [send_disconnects sample]
       (snd (websocket_alerts (conn 9 ''b'') (Inr ()) [] ready_state))
     = (Returned,
        snd (websocket_projects (conn 7 ''a'') (Inr ()) [send_disconnects sample]
               (snd (websocket_alerts (conn 9 ''b'') (Inr ()) [] ready_state))))
   \<and> active_connections
        (snd (websocket_projects (conn 7 ''a'') (Inr ()) [send_disconnects sample]
               (snd (websocket_alerts (conn 9 ''b'') (Inr ()) [] ready_state))))
        ''projects_7'' = None
   \<and> active_connections
        (snd (websocket_projects (conn 7 ''a'') (Inr ()) [send_disconnects sample]
               (snd (websocket_alerts (conn 9 ''b'') (Inr ()) [] ready_state))))
        ''alerts_9'' = Some (conn 9 ''b'')
   \<and> active_connections
        (snd (websocket_projects (conn 7 ''a'') (Inr ()) [send_disconnects sample]
               (snd (websocket_alerts (conn 9 ''b'') (Inr ()) [] ready_state))))
      = (active_connections (snd (websocket_alerts (conn 9 ''b'') (Inr ()) [] ready_state)))
          (prefix_of Projects @ str (obj_id (conn 7 ''a'')) := None)
   \<and> fst (on_disconnect ''projects_7''
        (snd (websocket_projects (conn 7 ''a'') (Inr ()) [send_disconnects sample]
               (snd (websocket_alerts (conn 9 ''b'') (Inr ()) [] ready_state)))))
      = Returned
   \<and> active_connections (snd (on_disconnect ''projects_7''
        (snd (websocket_projects (conn 7 ''a'') (Inr ()) [send_disconnects sample]
               (snd (websocket_alerts (conn 9 ''b'') (Inr ()) [] ready_state))))))
      = active_connections
          (snd (websocket_projects (conn 7 ''a'') (Inr ()) [send_disconnects sample]
                 (snd (websocket_alerts (conn 9 ''b'') (Inr ()) [] ready_state))))"
proof -
  let ?before = "snd (websocket_alerts (conn 9 ''b'') (Inr ()) [] ready_state)"
  let ?after = "snd (websocket_projects (conn 7 ''a'') (Inr ()) [send_disconnects sample] ?before)"
  have a: "websocket_endpoint (prefix_of Projects) (cycle_of Projects) (conn 7 ''a'') (Inr ())
       [send_disconnects sample] ?before = (Returned, ?after)"
    by (simp add: endpoint_defs ready_state_eq str.simps digit_def cycle_defs input_defs
        dict_pop_default)
  have b: "active_connections ?after ''projects_7'' = None"
    by (simp add: endpoint_defs ready_state_eq str.simps digit_def cycle_defs input_defs
        dict_pop_default)
  have c: "active_connections ?after ''alerts_9'' = Some (conn 9 ''b'')"
    by (simp add: endpoint_defs ready_state_eq str.simps digit_def cycle_defs input_defs
        dict_pop_default)
  note th = removal_idempotent [of "''projects_7''" ?after Projects "conn 7 ''a''" "Inr ()"
        "[send_disconnects sample]" ?before ?after]
  have d: "fst (on_disconnect ''projects_7'' ?after) = Returned"
    by (simp only: th [THEN conjunct1] fst_conv)
  have e: "active_connections (snd (on_disconnect ''projects_7'' ?after))
             = active_connections ?after"
    using th b by blast
  have f: "active_connections ?after
             = (active_connections ?before)(prefix_of Projects @ str (obj_id (conn 7 ''a'')) := None)"
    using th a by blast
  show ?thesis
    using a b c d e f by blast
qed



text \<open>
  C1. The endpoint deregisters only in its \<^verbatim>\<open>except WebSocketDisconnect\<close> handler.
  When the first fetch of a projects session raises another exception, the endpoint
  ends with that exception and the registry still holds the session's entry.
\<close>

theorem fetch_error_leaves_entry:
  "fst (websocket_projects (conn 7 ''a'') (Inr ()) [fetch_fails (Exception ''boom'')] ready_state)
     = Raised (Exception ''boom'')
   \<and> active_connections
        (snd (websocket_projects (conn 7 ''a'') (Inr ()) [fetch_fails (Exception ''boom'')]
               ready_state))
        ''projects_7'' = Some (conn 7 ''a'')"
  by (simp add: endpoint_defs ready_state_eq fetch_fails_def conn_def str_7 cycle_defs)

section \<open>The cycles of the endpoints\<close>

text \<open>
  C2, as the code has it. In every topic's loop and in every cycle that starts with the
  engine set, a fetch that raises ends the loop with that exception: the cycles before
  it are as they were, the failing cycle adds no event (nothing is logged, no frame is
  sent, no sleep happens), and the cycles after it are never run.
\<close>

theorem fetch_error_ends_loop:
  assumes "serve_forever (cycle_of t ws) pre s = (Pending, s1)"
    and "engine_of t s1 \<noteq> None"
    and "fetch_result io = Inl e"
  shows "serve_forever (cycle_of t ws) (pre @ io # rest) s = (Raised e, tick (fetch_ms io) s1)"
  using assms by (simp add: serve_forever_append cycle_fetch_error)

theorem fetch_error_ends_loop_witness:
  "serve_forever (cycle_of Portfolio (conn 7 ''a'')) [ok_cycle sample] ready_state
     = (Pending, snd (serve_forever (cycle_of Portfolio (conn 7 ''a'')) [ok_cycle sample] ready_state))
   \<and> engine_of Portfolio
        (snd (serve_forever (cycle_of Portfolio (conn 7 ''a'')) [ok_cycle sample] ready_state))
       \<noteq> None
   \<and> fetch_result (fetch_fails (Exception ''boom'')) = Inl (Exception ''boom'')
   \<and> serve_forever (cycle_of Portfolio (conn 7 ''a''))
        ([ok_cycle sample] @ fetch_fails (Exception ''boom'') # [ok_cycle sample]) ready_state
     = (Raised (Exception ''boom''),
        tick (fetch_ms (fetch_fails (Exception ''boom'')))
          (snd (serve_forever (cycle_of Portfolio (conn 7 ''a'')) [ok_cycle sample] ready_state)))"
proof -
  have a: "serve_forever (cycle_of Portfolio (conn 7 ''a'')) [ok_cycle sample] ready_state
     = (Pending, snd (serve_forever (cycle_of Portfolio (conn 7 ''a'')) [ok_cycle sample] ready_state))"
    by (simp add: ready_state_eq cycle_defs input_defs)
  have b: "engine_of Portfolio
        (snd (serve_forever (cycle_of Portfolio (conn 7 ''a'')) [ok_cycle sample] ready_state))
       \<noteq> None"
    by (simp add: ready_state_eq cycle_defs input_defs)
  have c: "fetch_result (fetch_fails (Exception ''boom'')) = Inl (Exception ''boom'')"
    by (simp add: fetch_fails_def)
  show ?thesis
    using a b c fetch_error_ends_loop [OF a b c, of "[ok_cycle sample]"] by blast
qed

text \<open>
  C2, as the claim states it, fails: on the projects endpoint with the engine set, a
  first cycle whose fetch raises ends the endpoint with that exception. The trace holds
  the accept and nothing else: no log entry for the failure, and the second cycle of the
  script, whose fetch would succeed, never runs.
\<close>

theorem fetch_error_counterexample:
  "websocket_projects (conn 7 ''a'') (Inr ())
      [fetch_fails (Exception ''boom''), ok_cycle sample] ready_state
   = (Raised (Exception ''boom''),
      ready_state\<lparr>active_connections := [''projects_7'' \<mapsto> conn 7 ''a''],
                   trace := trace ready_state @ [Accept (conn 7 ''a'')]\<rparr>)"
  by (simp add: endpoint_defs ready_state_eq str_7 cycle_defs input_defs)

text \<open>
  C4, as the code has it. A cycle that starts while its topic's engine global is unset
  performs no fetch and no delivery: its only possible event is the sleep. The globals
  are assigned as the constructors return, so once the configuration, the data collector
  and an engine have been constructed that engine's global is set, whatever
  \<^verbatim>\<open>data_collector.start()\<close> and \<^verbatim>\<open>load_models()\<close> do afterwards.
\<close>

theorem unset_engine_skips_cycle:
  "(engine_of t s = None \<longrightarrow>
      trace (snd (cycle_of t ws io s)) =
        trace s @ (case sleep_result io of Inl e \<Rightarrow> [] | Inr u \<Rightarrow> [Sleep (interval_of t)])
      \<and> frames (trace (snd (cycle_of t ws io s))) = frames (trace s))
   \<and> (config_result sio = Inr () \<longrightarrow> collector_result sio = Inr () \<longrightarrow>
        analyzer_result sio = Inr () \<longrightarrow>
          project_analyzer (snd (lifespan_startup sio s0)) = Some (Obj ''ProjectAnalyzer'')
          \<and> (optimizer_result sio = Inr () \<longrightarrow>
               portfolio_optimizer (snd (lifespan_startup sio s0)) = Some (Obj ''PortfolioOptimizer'')
               \<and> (risk_result sio = Inr () \<longrightarrow>
                    risk_analyzer (snd (lifespan_startup sio s0)) = Some (Obj ''RiskAnalyzer''))))"
  by (cases t) (auto simp: cycle_defs startup_defs frames_append split: sum.splits)

theorem unset_engine_skips_cycle_witness:
  "engine_of Projects initial_state = None
   \<and> trace (snd (cycle_of Projects (conn 7 ''a'') (ok_cycle sample) initial_state)) = [Sleep 2]
   \<and> frames (trace (snd (cycle_of Projects (conn 7 ''a'') (ok_cycle sample) initial_state))) = []
   \<and> config_result load_fails = Inr () \<and> collector_result load_fails = Inr ()
   \<and> analyzer_result load_fails = Inr () \<and> optimizer_result load_fails = Inr ()
   \<and> risk_result load_fails = Inr ()
   \<and> project_analyzer (snd (lifespan_startup load_fails initial_state))
       = Some (Obj ''ProjectAnalyzer'')
   \<and> portfolio_optimizer (snd (lifespan_startup load_fails initial_state))
       = Some (Obj ''PortfolioOptimizer'')
   \<and> risk_analyzer (snd (lifespan_startup load_fails initial_state)) = Some (Obj ''RiskAnalyzer'')"
  using unset_engine_skips_cycle
    [of Projects initial_state "conn 7 ''a''" "ok_cycle sample" load_fails initial_state]
  by (simp add: initial_state_def input_defs)

text \<open>
  C4, as the claim states it, fails: when \<^verbatim>\<open>load_models()\<close> raises, startup ends with
  that exception and the model load never completes, yet the project analyzer's global
  is set, and a projects cycle run in that state fetches and delivers a frame.
\<close>

theorem readiness_counterexample:
  "fst (lifespan_startup load_fails initial_state) = Inl (Exception ''no model'')
   \<and> LoadModels \<notin> set (trace (snd (lifespan_startup load_fails initial_state)))
   \<and> project_analyzer (snd (lifespan_startup load_fails initial_state))
       = Some (Obj ''ProjectAnalyzer'')
   \<and> frames (trace (snd (projects_cycle (conn 7 ''a'') (ok_cycle sample)
                           (snd (lifespan_startup load_fails initial_state)))))
       = [(conn 7 ''a'', sample)]"
  by (simp add: startup_defs initial_state_def cycle_defs input_defs)

text \<open>
  C6. An alerts cycle whose fetch returns the empty list sends no frame. A projects or
  portfolio cycle with the engine set, whose fetch returns a value and whose session's
  transport takes the send, sends exactly one frame, to that session, carrying the value
  fetched, whatever was sent before.
\<close>

theorem cycle_frames:
  "(risk_analyzer s \<noteq> None \<longrightarrow> fetch_result aio = Inr (PyList []) \<longrightarrow>
      frames (trace (snd (alerts_cycle ws aio s))) = frames (trace s))
   \<and> (project_analyzer s \<noteq> None \<longrightarrow> fetch_result io = Inr v \<longrightarrow> send_result io = Inr () \<longrightarrow>
      frames (trace (snd (projects_cycle ws io s))) = frames (trace s) @ [(ws, v)])
   \<and> (portfolio_optimizer s \<noteq> None \<longrightarrow> fetch_result io = Inr v \<longrightarrow> send_result io = Inr () \<longrightarrow>
      frames (trace (snd (portfolio_cycle ws io s))) = frames (trace s) @ [(ws, v)])"
  by (auto simp: cycle_defs frames_append split: sum.splits)

theorem cycle_frames_witness:
  "risk_analyzer ready_state \<noteq> None \<and> fetch_result (ok_cycle (PyList [])) = Inr (PyList [])
   \<and> frames (trace (snd (alerts_cycle (conn 7 ''a'') (ok_cycle (PyList [])) ready_state))) = []
   \<and> project_analyzer ready_state \<noteq> None \<and> portfolio_optimizer ready_state \<noteq> None
   \<and> fetch_result (ok_cycle sample) = Inr sample \<and> send_result (ok_cycle sample) = Inr ()
   \<and> frames (trace (snd (projects_cycle (conn 7 ''a'') (ok_cycle sample) ready_state)))
       = [(conn 7 ''a'', sample)]
   \<and> frames (trace (snd (portfolio_cycle (conn 7 ''a'') (ok_cycle sample) ready_state)))
       = [(conn 7 ''a'', sample)]"
  using cycle_frames
    [of ready_state "ok_cycle (PyList [])" "conn 7 ''a''" "ok_cycle sample" sample]
  by (simp add: ready_state_eq ok_cycle_def)

text \<open>
  C8, as the code has it. Every cycle that completes ends with exactly one suspension, of
  a duration fixed by the topic alone: 2 seconds for projects, 5 for portfolio, 10 for
  alerts. The next cycle therefore starts that duration plus the time the cycle's fetch
  and send took after this one started; for projects and portfolio with the engine set
  that is exactly the sum of the three. For every topic the work time is nothing when the
  engine is unset, and otherwise the time of the fetch plus, when a frame was sent, the
  time of the send.
\<close>

theorem cycle_suspension:
  assumes "cycle_of t ws io s = (Inr (), s')"
  shows "(\<exists>evs. trace s' = trace s @ evs @ [Sleep (interval_of t)] \<and> (\<forall>n. Sleep n \<notin> set evs))
    \<and> clock s + 1000 * interval_of t \<le> clock s'
    \<and> clock s' \<le> clock s + fetch_ms io + send_ms io + 1000 * interval_of t
    \<and> (t \<noteq> Alerts \<longrightarrow> engine_of t s \<noteq> None \<longrightarrow>
          clock s' = clock s + fetch_ms io + send_ms io + 1000 * interval_of t)
    \<and> clock s' =
        clock s
        + (case engine_of t s of
             None \<Rightarrow> 0
           | Some c \<Rightarrow>
               fetch_ms io
               + (case fetch_result io of
                    Inl e \<Rightarrow> 0
                  | Inr a \<Rightarrow> if t = Alerts \<and> \<not> truthy a then 0 else send_ms io))
        + 1000 * interval_of t
    \<and> interval_of Projects = 2 \<and> interval_of Portfolio = 5 \<and> interval_of Alerts = 10"
  using assms by (cases t) (auto simp: cycle_defs split: sum.splits if_splits)

theorem cycle_suspension_witness:
  "cycle_of Portfolio (conn 7 ''a'') (slow_fetch sample) ready_state
     = (Inr (), snd (cycle_of Portfolio (conn 7 ''a'') (slow_fetch sample) ready_state))
   \<and> Portfolio \<noteq> Alerts \<and> engine_of Portfolio ready_state \<noteq> None
   \<and> clock (snd (cycle_of Portfolio (conn 7 ''a'') (slow_fetch sample) ready_state)) = 6000
   \<and> (\<exists>evs. trace (snd (cycle_of Portfolio (conn 7 ''a'') (slow_fetch sample) ready_state))
              = trace ready_state @ evs @ [Sleep 5] \<and> (\<forall>n. Sleep n \<notin> set evs))"
proof -
  have a: "cycle_of Portfolio (conn 7 ''a'') (slow_fetch sample) ready_state
     = (Inr (), snd (cycle_of Portfolio (conn 7 ''a'') (slow_fetch sample) ready_state))"
    by (simp add: ready_state_eq cycle_defs input_defs)
  have b: "engine_of Portfolio ready_state \<noteq> None"
    by (simp add: ready_state_eq)
  have c: "clock ready_state = 0" "fetch_ms (slow_fetch sample) = 1000"
    "send_ms (slow_fetch sample) = 0"
    by (simp_all add: ready_state_eq slow_fetch_def)
  show ?thesis
    using a b c cycle_suspension [OF a] by simp
qed

text \<open>
  C8, as the claim states it, fails: a projects cycle that starts at time 0 and whose
  fetch takes one second completes at time 3000 ms, which is when the next cycle
  starts; the interval between the two starts is 3 seconds, not 2.
\<close>

theorem cadence_counterexample:
  "fst (projects_cycle (conn 7 ''a'') (slow_fetch sample) ready_state) = Inr ()
   \<and> clock ready_state = 0
   \<and> clock (snd (projects_cycle (conn 7 ''a'') (slow_fetch sample) ready_state)) = 3000"
  by (simp add: ready_state_eq cycle_defs input_defs)

text \<open>
  C10, as the code has it. When the engine is set as the session is accepted and the
  first fetch and send succeed, a projects or portfolio session, and an alerts session
  whose first fetch returns a non-empty value, starts with the accept, the fetch and the
  frame: the frame is sent before any sleep. An alerts session whose first fetch returns
  an empty value starts with the accept, the fetch and the sleep of 10 seconds: its first
  cycle sends no frame.
\<close>

theorem first_frame_before_first_sleep:
  assumes "fetch_result io = Inr v" and "send_result io = Inr ()"
  shows "(project_analyzer s \<noteq> None \<longrightarrow>
            (\<exists>evs. trace (snd (websocket_projects ws (Inr ()) (io # rest) s))
               = trace s @ [Accept ws, GetRealtimeAnalytics, SendJson ws v] @ evs))
       \<and> (portfolio_optimizer s \<noteq> None \<longrightarrow>
            (\<exists>evs. trace (snd (websocket_portfolio ws (Inr ()) (io # rest) s))
               = trace s @ [Accept ws, GetRealtimePortfolio, SendJson ws v] @ evs))
       \<and> (risk_analyzer s \<noteq> None \<longrightarrow> truthy v \<longrightarrow>
            (\<exists>evs. trace (snd (websocket_alerts ws (Inr ()) (io # rest) s))
               = trace s @ [Accept ws, GetActiveAlerts, SendJson ws v] @ evs))
       \<and> (risk_analyzer s \<noteq> None \<longrightarrow> fetch_result aio = Inr av \<longrightarrow> \<not> truthy av \<longrightarrow>
          sleep_result aio = Inr () \<longrightarrow>
            (\<exists>evs. trace (snd (websocket_alerts ws (Inr ()) (aio # rest) s))
               = trace s @ [Accept ws, GetActiveAlerts, Sleep 10] @ evs))"
  using assms endpoint_first_frame [of Projects s io v ws rest]
    endpoint_first_frame [of Portfolio s io v ws rest]
    endpoint_first_frame [of Alerts s io v ws rest]
    alerts_first_cycle_empty [of s aio av ws rest]
  by (simp add: websocket_projects_def websocket_portfolio_def websocket_alerts_def)

theorem first_frame_before_first_sleep_witness:
  "fetch_result (ok_cycle sample) = Inr sample \<and> send_result (ok_cycle sample) = Inr ()
   \<and> project_analyzer ready_state \<noteq> None \<and> portfolio_optimizer ready_state \<noteq> None
   \<and> risk_analyzer ready_state \<noteq> None \<and> truthy sample
   \<and> fetch_result (ok_cycle (PyList [])) = Inr (PyList []) \<and> \<not> truthy (PyList [])
   \<and> sleep_result (ok_cycle (PyList [])) = Inr ()
   \<and> (\<exists>evs. trace (snd (websocket_projects (conn 7 ''a'') (Inr ())
                          (ok_cycle sample # [ok_cycle sample]) ready_state))
         = trace ready_state
             @ [Accept (conn 7 ''a''), GetRealtimeAnalytics, SendJson (conn 7 ''a'') sample] @ evs)
   \<and> (\<exists>evs. trace (snd (websocket_portfolio (conn 7 ''a'') (Inr ())
                          (ok_cycle sample # [ok_cycle sample]) ready_state))
         = trace ready_state
             @ [Accept (conn 7 ''a''), GetRealtimePortfolio, SendJson (conn 7 ''a'') sample] @ evs)
   \<and> (\<exists>evs. trace (snd (websocket_alerts (conn 7 ''a'') (Inr ())
                          (ok_cycle sample # [ok_cycle sample]) ready_state))
         = trace ready_state
             @ [Accept (conn 7 ''a''), GetActiveAlerts, SendJson (conn 7 ''a'') sample] @ evs)
   \<and> (\<exists>evs. trace (snd (websocket_alerts (conn 7 ''a'') (Inr ())
                          (ok_cycle (PyList []) # [ok_cycle sample]) ready_state))
         = trace ready_state @ [Accept (conn 7 ''a''), GetActiveAlerts, Sleep 10] @ evs)"
proof -
  have a: "fetch_result (ok_cycle sample) = Inr sample"
    and b: "send_result (ok_cycle sample) = Inr ()"
    by (simp_all add: ok_cycle_def)
  have c: "project_analyzer ready_state \<noteq> None" "portfolio_optimizer ready_state \<noteq> None"
    "risk_analyzer ready_state \<noteq> None"
    by (simp_all add: ready_state_eq)
  have d: "truthy sample" "fetch_result (ok_cycle (PyList [])) = Inr (PyList [])"
    "\<not> truthy (PyList [])" "sleep_result (ok_cycle (PyList [])) = Inr ()"
    by (simp_all add: sample_def ok_cycle_def)
  show ?thesis
    using a b c d
      first_frame_before_first_sleep [OF a b, of ready_state "conn 7 ''a''" "[ok_cycle sample]"
        "ok_cycle (PyList [])" "PyList []"]
    by blast
qed

text \<open>
  C10, as the claim states it, fails: an alerts session is accepted with the risk
  analyzer set, its first fetch returns the empty list, and the handler goes to its
  10-second sleep without sending anything; when the sleep ends the session has received
  no frame.
\<close>

theorem alerts_first_frame_counterexample:
  "risk_analyzer ready_state \<noteq> None
   \<and> fst (websocket_alerts (conn 7 ''a'') (Inr ()) [ok_cycle (PyList [])] ready_state) = Pending
   \<and> trace (snd (websocket_alerts (conn 7 ''a'') (Inr ()) [ok_cycle (PyList [])] ready_state))
       = trace ready_state @ [Accept (conn 7 ''a''), GetActiveAlerts, Sleep 10]
   \<and> frames (trace (snd (websocket_alerts (conn 7 ''a'') (Inr ()) [ok_cycle (PyList [])]
                           ready_state))) = []
   \<and> clock (snd (websocket_alerts (conn 7 ''a'') (Inr ()) [ok_cycle (PyList [])] ready_state))
       = clock ready_state + 10000"
  by (simp add: endpoint_defs ready_state_eq str_7 cycle_defs input_defs)

section \<open>Startup and shutdown\<close>

text \<open>
  C7. The result of startup and the calls it completed are those of the seven steps
  taken in strict order, from the configuration to the model load, stopping at the
  first one that raises, whose exception is the result. When all seven succeed the
  trace is the full sequence in that order; and startup succeeds only if every step did.
\<close>

theorem startup_order:
  "fst (lifespan_startup io s) = fst (spec_run_steps (spec_startup_steps io))
   \<and> trace (snd (lifespan_startup io s)) =
       trace s @ [LogInfo MsgStarting] @ snd (spec_run_steps (spec_startup_steps io))
         @ closing_log (fst (spec_run_steps (spec_startup_steps io)))
   \<and> (config_result io = Inr () \<longrightarrow> collector_result io = Inr () \<longrightarrow>
      analyzer_result io = Inr () \<longrightarrow> optimizer_result io = Inr () \<longrightarrow>
      risk_result io = Inr () \<longrightarrow> start_result io = Inr () \<longrightarrow> load_result io = Inr () \<longrightarrow>
        lifespan_startup io s =
          (Inr (), s\<lparr>data_collector := Some (Obj ''ProjectDataCollector''),
                     project_analyzer := Some (Obj ''ProjectAnalyzer''),
                     portfolio_optimizer := Some (Obj ''PortfolioOptimizer''),
                     risk_analyzer := Some (Obj ''RiskAnalyzer''),
                     trace := trace s @
                       [LogInfo MsgStarting, Construct ''ProjectConfig'',
                        Construct ''ProjectDataCollector'', Construct ''ProjectAnalyzer'',
                        Construct ''PortfolioOptimizer'', Construct ''RiskAnalyzer'',
                        CollectorStart, LoadModels, LogInfo MsgInitialized]\<rparr>))
   \<and> (fst (lifespan_startup io s) = Inr () \<longrightarrow>
        config_result io = Inr () \<and> collector_result io = Inr () \<and> analyzer_result io = Inr ()
        \<and> optimizer_result io = Inr () \<and> risk_result io = Inr () \<and> start_result io = Inr ()
        \<and> load_result io = Inr ())"
  by (simp add: startup_defs spec_startup_steps_def split: sum.splits)

theorem startup_order_witness:
  "config_result all_ok = Inr () \<and> collector_result all_ok = Inr ()
   \<and> analyzer_result all_ok = Inr () \<and> optimizer_result all_ok = Inr ()
   \<and> risk_result all_ok = Inr () \<and> start_result all_ok = Inr () \<and> load_result all_ok = Inr ()
   \<and> fst (lifespan_startup all_ok initial_state) = Inr ()
   \<and> trace (snd (lifespan_startup all_ok initial_state)) =
       [LogInfo MsgStarting, Construct ''ProjectConfig'',
        Construct ''ProjectDataCollector'', Construct ''ProjectAnalyzer'',
        Construct ''PortfolioOptimizer'', Construct ''RiskAnalyzer'',
        CollectorStart, LoadModels, LogInfo MsgInitialized]"
  using startup_order [of all_ok initial_state]
  by (simp add: all_ok_def initial_state_def)

text \<open>
  C5, as the code has it. The shutdown part of \<^verbatim>\<open>lifespan\<close> logs, stops the data
  collector if its global is set, and logs completion unless that stop raised, in which
  case the exception is the result. It leaves \<^verbatim>\<open>active_connections\<close> as it found it.
\<close>

theorem shutdown_keeps_registry:
  "active_connections (snd (lifespan_shutdown r s)) = active_connections s
   \<and> fst (lifespan_shutdown r s) = (case data_collector s of None \<Rightarrow> Inr () | Some c \<Rightarrow> r)
   \<and> trace (snd (lifespan_shutdown r s)) =
       trace s @
         (case data_collector s of
            None \<Rightarrow> [LogInfo MsgShuttingDown, LogInfo MsgShutdownComplete]
          | Some c \<Rightarrow>
              (case r of
                 Inl e \<Rightarrow> [LogInfo MsgShuttingDown]
               | Inr u \<Rightarrow> [LogInfo MsgShuttingDown, CollectorStop, LogInfo MsgShutdownComplete]))"
  by (auto simp: lifespan_shutdown_def and_then_def await_call_def emit_def
      split: sum.splits option.splits)

text \<open>
  C5, as the claim states it, fails: with one projects session open and registered,
  shutdown completes without error and the registry still holds that session.
\<close>

theorem shutdown_counterexample:
  "fst (websocket_projects (conn 7 ''a'') (Inr ()) [ok_cycle sample] ready_state) = Pending
   \<and> fst (lifespan_shutdown (Inr ())
        (snd (websocket_projects (conn 7 ''a'') (Inr ()) [ok_cycle sample] ready_state)))
      = Inr ()
   \<and> active_connections (snd (lifespan_shutdown (Inr ())
        (snd (websocket_projects (conn 7 ''a'') (Inr ()) [ok_cycle sample] ready_state))))
        ''projects_7'' = Some (conn 7 ''a'')"
  by (simp add: endpoint_defs ready_state_eq str_7 cycle_defs input_defs
      lifespan_shutdown_def await_call_def)

end
